theory Spec2Isabelle
  imports Complex_Main "HOL-Library.AList"
begin

section \<open>Time\<close>

text \<open>
  A naive \<open>datetime\<close> is its number of microseconds on the wall clock, a \<open>timedelta\<close> a
  number of microseconds. \<open>datetime.utcnow()\<close> reads the field \<open>now\<close> of the world (below).
\<close>

type_synonym datetime = int
type_synonym timedelta = int

definition timedelta_seconds :: "int \<Rightarrow> timedelta" where
  "timedelta_seconds n = n * 1000000"

definition timedelta_minutes :: "int \<Rightarrow> timedelta" where
  "timedelta_minutes n = n * 60000000"

definition timedelta_hours :: "int \<Rightarrow> timedelta" where
  "timedelta_hours n = n * 3600000000"

definition timedelta_days :: "int \<Rightarrow> timedelta" where
  "timedelta_days n = n * 86400000000"

text \<open>\<open>d.replace(hour=0, minute=0, second=0, microsecond=0)\<close>\<close>

definition replace_midnight :: "datetime \<Rightarrow> datetime" where
  "replace_midnight d = d - d mod 86400000000"

text \<open>\<open>d.replace(hour=h, minute=m, second=0, microsecond=0)\<close>\<close>

definition replace_hm :: "datetime \<Rightarrow> int \<Rightarrow> int \<Rightarrow> datetime" where
  "replace_hm d h m = replace_midnight d + timedelta_hours h + timedelta_minutes m"

fun show_nat :: "nat \<Rightarrow> string" where
  "show_nat n =
     (if n < 10 then [''0123456789'' ! n]
      else show_nat (n div 10) @ [''0123456789'' ! (n mod 10)])"

definition show_int :: "int \<Rightarrow> string" where
  "show_int i = (if i < 0 then ''-'' @ show_nat (nat (- i)) else show_nat (nat i))"

text \<open>\<open>"%0kd" % n\<close> for a natural number\<close>

definition zero_pad :: "nat \<Rightarrow> nat \<Rightarrow> string" where
  "zero_pad k n = replicate (k - length (show_nat n)) CHR ''0'' @ show_nat n"

text \<open>\<open>str(timedelta)\<close>: days (when not zero), then \<open>H:MM:SS\<close>, then the microseconds
  (when not zero).\<close>

definition timedelta_str :: "timedelta \<Rightarrow> string" where
  "timedelta_str td =
     (let days = td div 86400000000;
          rest = td mod 86400000000;
          secs = rest div 1000000;
          micros = rest mod 1000000;
          s = show_nat (nat (secs div 3600)) @ '':'' @ zero_pad 2 (nat (secs div 60 mod 60))
              @ '':'' @ zero_pad 2 (nat (secs mod 60));
          s1 = (if days \<noteq> 0
                then show_int days @ '' day'' @ (if \<bar>days\<bar> \<noteq> 1 then ''s'' else '''') @ '', '' @ s
                else s)
      in if micros \<noteq> 0 then s1 @ ''.'' @ zero_pad 6 (nat micros) else s1)"

section \<open>models/batch\_state.py\<close>

datatype BatchStatus = PENDING | RUNNING | COMPLETED | FAILED | PARTIAL | SKIPPED | CANCELLED

definition is_terminal :: "BatchStatus \<Rightarrow> bool" where
  "is_terminal s = (s \<in> set [COMPLETED, SKIPPED, CANCELLED])"

text \<open>\<open>BatchStatus.can_retry\<close>\<close>

definition status_can_retry :: "BatchStatus \<Rightarrow> bool" where
  "status_can_retry s = (s \<in> set [FAILED, PARTIAL, PENDING])"

text \<open>An exception: the name of its class, its module, and \<open>str(error)\<close>.\<close>

datatype exn = Exn (exn_class: string) (exn_module: string) (exn_str: string)

text \<open>Values of the open \<open>metadata\<close> dictionary.\<close>

datatype mval = MBool bool | MStr string | MTime datetime | MDuration timedelta

text \<open>
  The fields of \<open>BatchState\<close>, as declared. \<open>status\<close> holds a member of \<open>BatchStatus\<close>, as the
  field's annotation says and as the methods called on it need (\<open>Config.use_enum_values\<close> is
  not modelled). Counters are declared \<open>ge=0\<close> and only ever incremented, so they are
  natural numbers. \<open>accuracy\<close> is a float in the source and an exact rational here.
\<close>

record BatchState =
  batch_date :: datetime
  batch_id :: "string option"
  status :: BatchStatus
  previous_status :: "BatchStatus option"
  created_at :: datetime
  updated_at :: datetime
  started_at :: "datetime option"
  completed_at :: "datetime option"
  failed_at :: "datetime option"
  retry_count :: nat
  max_retries :: nat
  last_retry_at :: "datetime option"
  retry_after :: "datetime option"
  error_message :: "string option"
  error_type :: "string option"
  error_details :: "(string \<times> string) list"
  total_pairs :: nat
  processed_pairs :: nat
  successful_evaluations :: nat
  failed_evaluations :: nat
  error_evaluations :: nat
  passed :: nat
  failed :: nat
  accuracy :: "rat option"
  report_path :: "string option"
  report_generated :: bool
  email_sent :: bool
  email_recipients :: "string list"
  is_recovery :: bool
  recovery_triggered_by :: "string option"
  recovery_attempted :: bool
  recovery_count :: nat
  metadata :: "(string \<times> mval) list"
  tags :: "string list"

text \<open>\<open>BatchState(batch_date=d)\<close> at time \<open>t\<close>: every other field takes its default.\<close>

definition BatchState_new :: "datetime \<Rightarrow> datetime \<Rightarrow> BatchState" where
  "BatchState_new t d =
     \<lparr> batch_date = replace_midnight d, batch_id = None, status = PENDING,
       previous_status = None, created_at = t, updated_at = t, started_at = None,
       completed_at = None, failed_at = None, retry_count = 0, max_retries = 3,
       last_retry_at = None, retry_after = None, error_message = None, error_type = None,
       error_details = [], total_pairs = 0, processed_pairs = 0, successful_evaluations = 0,
       failed_evaluations = 0, error_evaluations = 0, passed = 0, failed = 0, accuracy = None,
       report_path = None, report_generated = False, email_sent = False,
       email_recipients = [], is_recovery = False, recovery_triggered_by = None,
       recovery_attempted = False, recovery_count = 0, metadata = [], tags = [] \<rparr>"

text \<open>\<open>BatchState(**doc)\<close> at time \<open>t\<close>: the validators normalise \<open>batch_date\<close> and
  always overwrite \<open>updated_at\<close>. The documents of the collection are those the program
  wrote, from counters, truncated messages and validated accuracies, so the declared bounds
  of the fields hold and the constructor does not raise.\<close>

definition BatchState_load :: "datetime \<Rightarrow> BatchState \<Rightarrow> BatchState" where
  "BatchState_load t doc = doc\<lparr>batch_date := replace_midnight (batch_date doc), updated_at := t\<rparr>"

definition can_retry :: "datetime \<Rightarrow> BatchState \<Rightarrow> bool" where
  "can_retry t st =
     (if retry_count st \<ge> max_retries st then False
      else if (case retry_after st of None \<Rightarrow> False | Some ra \<Rightarrow> t < ra) then False
      else status_can_retry (status st))"

definition increment_retry :: "datetime \<Rightarrow> BatchState \<Rightarrow> BatchState" where
  "increment_retry t st =
     st\<lparr>retry_count := retry_count st + 1, last_retry_at := Some t, updated_at := t\<rparr>"

text \<open>\<open>set_error(error)\<close> with the default \<open>error_type=None\<close>. The third entry of
  \<open>error_details\<close>, the time stamp in ISO format, is kept as the number of microseconds.\<close>

definition set_error :: "datetime \<Rightarrow> exn \<Rightarrow> BatchState \<Rightarrow> BatchState" where
  "set_error t e st =
     st\<lparr>error_message := Some (take 5000 (exn_str e)),
        error_type := Some (exn_class e),
        failed_at := Some t,
        status := FAILED,
        error_details := [(''error_class'', exn_class e), (''error_module'', exn_module e),
                          (''timestamp'', show_int t)]\<rparr>"

definition get_duration :: "BatchState \<Rightarrow> timedelta option" where
  "get_duration st =
     (case started_at st of
        None \<Rightarrow> None
      | Some s \<Rightarrow>
          (case completed_at st of
             Some c \<Rightarrow> Some (c - s)
           | None \<Rightarrow> (case failed_at st of Some f \<Rightarrow> Some (f - s) | None \<Rightarrow> None)))"

section \<open>models/evaluation.py\<close>

datatype EvaluationStatus = PASS | FAIL | ERROR

record TranscriptSummaryPair =
  interaction_id :: string
  transcript :: string
  post_call_summary :: string

record EvaluationResult =
  evaluation_id :: string
  result_batch_id :: string
  result_interaction_id :: string
  eval_status :: EvaluationStatus
  eval_reason :: string
  confidence_score :: "rat option"

text \<open>
  \<open>round(x, n)\<close>: to \<open>n\<close> decimals, a tie going to the even neighbour. The source rounds
  a binary float; the model rounds the exact quotient.
\<close>

definition round_half_even :: "rat \<Rightarrow> int" where
  "round_half_even x =
     (let f = \<lfloor>x\<rfloor>; r = x - of_int f
      in if r < 1 / 2 then f
         else if 1 / 2 < r then f + 1
         else if even f then f else f + 1)"

definition py_round :: "rat \<Rightarrow> nat \<Rightarrow> rat" where
  "py_round x n = of_int (round_half_even (x * 10 ^ n)) / 10 ^ n"

record BatchEvaluation =
  be_batch_id :: string
  evaluation_date :: datetime
  total_evaluations :: nat
  be_passed :: nat
  be_failed :: nat
  errors :: nat
  pass_percentage :: rat
  fail_percentage :: rat
  error_percentage :: rat
  be_accuracy :: rat
  average_confidence :: "rat option"
  evaluation_ids :: "string list"
  be_created_at :: datetime
  processing_time_seconds :: "timedelta option"

definition ValidationError :: exn where
  "ValidationError = Exn ''ValidationError'' ''pydantic.error_wrappers'' ''validation error for BatchEvaluation''"

text \<open>
  \<open>BatchEvaluation(...)\<close> at time \<open>t\<close>. The declared bounds of the float fields are checked
  on the values passed in; then the validators run: \<open>validate_percentages\<close> rounds each
  percentage to 2 decimals, and \<open>validate_accuracy\<close> replaces the accuracy passed in by
  \<open>round(passed / total_evaluations, 4)\<close> whenever \<open>total_evaluations > 0\<close>.
\<close>

definition validate_accuracy :: "rat \<Rightarrow> nat \<Rightarrow> nat \<Rightarrow> rat" where
  "validate_accuracy v n_total n_passed =
     (if n_total > 0 then py_round (of_nat n_passed / of_nat n_total) 4 else v)"

definition BatchEvaluation_init ::
  "datetime \<Rightarrow> string \<Rightarrow> datetime \<Rightarrow> nat \<Rightarrow> nat \<Rightarrow> nat \<Rightarrow> nat \<Rightarrow> rat \<Rightarrow> rat \<Rightarrow> rat \<Rightarrow> rat
     \<Rightarrow> rat option \<Rightarrow> string list \<Rightarrow> timedelta option \<Rightarrow> exn + BatchEvaluation" where
  "BatchEvaluation_init t bid date n_total p f e pp fp ep acc conf ids ptime =
     (if pp < 0 \<or> 100 < pp \<or> fp < 0 \<or> 100 < fp \<or> ep < 0 \<or> 100 < ep \<or> acc < 0 \<or> 1 < acc
         \<or> (case conf of None \<Rightarrow> False | Some c \<Rightarrow> c < 0 \<or> 1 < c)
      then Inl ValidationError
      else Inr \<lparr> be_batch_id = bid, evaluation_date = date, total_evaluations = n_total,
                 be_passed = p, be_failed = f, errors = e,
                 pass_percentage = py_round pp 2, fail_percentage = py_round fp 2,
                 error_percentage = py_round ep 2,
                 be_accuracy = validate_accuracy acc n_total p,
                 average_confidence = conf, evaluation_ids = ids, be_created_at = t,
                 processing_time_seconds = ptime \<rparr>)"

section \<open>The world and the external collaborators\<close>

text \<open>
  What the e-mail service was asked to send: the subject line, the priority, and whether a
  provider delivered it.
\<close>

datatype subject =
    Batch_failed datetime
  | No_data_found datetime
  | Low_accuracy_alert datetime
  | Evaluation_report datetime bool bool
  | Recovery_summary nat nat
  | Max_retries_exceeded_alert datetime
  | Recovery_success datetime
  | Recovery_process_error

datatype email = Email (subject: subject) (priority: string) (delivered: bool)

text \<open>
  The mutable world: the clock, the \<open>batch_states\<close> collection (its documents in insertion
  order), what \<open>save_evaluation_results\<close> stored, the e-mails handed to the e-mail service,
  the dates for which \<open>run_daily_evaluation\<close> logged its start, and the counters of
  \<open>recovery_stats\<close>. Calls of the collaborators take no time; \<open>asyncio.sleep(n)\<close> moves the
  clock by \<open>n\<close> seconds.
\<close>

record world =
  now :: datetime
  batch_states :: "BatchState list"
  saved_results :: "(EvaluationResult list \<times> BatchEvaluation) list"
  outbox :: "email list"
  started_log :: "datetime list"
  total_recoveries :: nat
  successful_recoveries :: nat
  failed_recoveries :: nat

text \<open>
  The collaborators and the settings, as parameters: the data source, the judge (the outcome
  of \<open>_evaluate_single_pair\<close>, which itself catches every failure), the persistence sink,
  the report generator, the e-mail providers, the fresh batch identifier, and \<open>strftime\<close>.
\<close>

record env =
  has_data :: "datetime \<Rightarrow> bool"
  get_unevaluated_pairs :: "datetime \<times> datetime \<Rightarrow> exn + TranscriptSummaryPair list"
  evaluate_single_pair :: "TranscriptSummaryPair \<Rightarrow> string \<Rightarrow> EvaluationResult"
  save_error :: "EvaluationResult list \<Rightarrow> BatchEvaluation \<Rightarrow> exn option"
  generate_excel_report :: "BatchEvaluation \<Rightarrow> EvaluationResult list \<Rightarrow> exn + string"
  email_delivers :: "subject \<Rightarrow> bool"
  new_batch_id :: string
  strftime_Ymd :: "datetime \<Rightarrow> string"
  ACCURACY_THRESHOLD :: rat
  BATCH_SIZE :: int
  ALERT_EMAIL :: string
  RECOVERY_LOOKBACK_DAYS :: int

definition sleep :: "int \<Rightarrow> world \<Rightarrow> world" where
  "sleep n w = w\<lparr>now := now w + timedelta_seconds n\<rparr>"

text \<open>\<open>db_service.has_data_for_date\<close>: it normalises the date and never raises.\<close>

definition has_data_for_date :: "env \<Rightarrow> datetime \<Rightarrow> bool" where
  "has_data_for_date env d = has_data env (replace_midnight d)"

text \<open>\<open>EmailService.send_alert\<close>: a failed delivery is logged, never raised.\<close>

definition send_alert :: "env \<Rightarrow> subject \<Rightarrow> string \<Rightarrow> world \<Rightarrow> world" where
  "send_alert env subj prio w = w\<lparr>outbox := outbox w @ [Email subj prio (email_delivers env subj)]\<rparr>"

text \<open>\<open>EmailService.send_evaluation_report\<close>: raises when no provider delivers.\<close>

definition send_evaluation_report ::
  "env \<Rightarrow> BatchEvaluation \<Rightarrow> string \<Rightarrow> bool \<Rightarrow> bool \<Rightarrow> world \<Rightarrow> (exn + unit) \<times> world" where
  "send_evaluation_report env batch path alert recovery w =
     (let subj = Evaluation_report (evaluation_date batch) alert recovery;
          prio = (if alert then ''high'' else ''normal'');
          success = email_delivers env subj;
          w1 = w\<lparr>outbox := outbox w @ [Email subj prio success]\<rparr>
      in if \<not> success then (Inl (Exn ''Exception'' ''builtins'' ''All email providers failed''), w1)
         else (Inr (), w1))"

section \<open>services/state\_service.py\<close>

text \<open>
  The collection \<open>batch_states\<close> with its unique index on \<open>batch_date\<close> (created by
  \<open>StateService.initialize\<close>): \<open>find_one\<close> by date, \<open>insert_one\<close>, which raises
  \<open>DuplicateKeyError\<close> when the date is taken, and \<open>update_one\<close> with \<open>$set\<close> of every
  field and \<open>upsert=True\<close>.
\<close>

definition find_one :: "datetime \<Rightarrow> BatchState list \<Rightarrow> BatchState option" where
  "find_one d coll = find (\<lambda>doc. batch_date doc = d) coll"

definition DuplicateKeyError :: exn where
  "DuplicateKeyError = Exn ''DuplicateKeyError'' ''pymongo.errors'' ''E11000 duplicate key error''"

definition insert_one :: "BatchState \<Rightarrow> BatchState list \<Rightarrow> exn + BatchState list" where
  "insert_one doc coll =
     (if find_one (batch_date doc) coll \<noteq> None then Inl DuplicateKeyError
      else Inr (coll @ [doc]))"

fun update_one_upsert :: "BatchState \<Rightarrow> BatchState list \<Rightarrow> BatchState list" where
  "update_one_upsert st [] = [st]"
| "update_one_upsert st (doc # coll) =
     (if batch_date doc = batch_date st then st # coll
      else doc # update_one_upsert st coll)"

definition NoneType_error :: exn where
  "NoneType_error = Exn ''AttributeError'' ''builtins'' ''NoneType object has no attribute pop''"

definition get_or_create_batch_state ::
  "datetime \<Rightarrow> world \<Rightarrow> (exn + BatchState) \<times> world" where
  "get_or_create_batch_state batch_date0 w =
     (let d = replace_midnight batch_date0 in
      case find_one d (batch_states w) of
        Some doc \<Rightarrow> (Inr (BatchState_load (now w) doc), w)
      | None \<Rightarrow>
          (let state = BatchState_new (now w) d in
           case insert_one state (batch_states w) of
             Inr coll \<Rightarrow> (Inr state, w\<lparr>batch_states := coll\<rparr>)
           | Inl _ \<Rightarrow>
               (case find_one d (batch_states w) of
                  Some doc \<Rightarrow> (Inr (BatchState_load (now w) doc), w)
                | None \<Rightarrow> (Inl NoneType_error, w))))"

text \<open>\<open>update_batch_state\<close> mutates the state object it is given (\<open>previous_status\<close>,
  \<open>updated_at\<close>), so the model returns it with the world.\<close>

definition update_batch_state :: "BatchState \<Rightarrow> world \<Rightarrow> BatchState \<times> world" where
  "update_batch_state state w =
     (let state1 =
            (case find_one (batch_date state) (batch_states w) of
               Some current \<Rightarrow>
                 if status current \<noteq> status state
                 then state\<lparr>previous_status := Some (status current)\<rparr> else state
             | None \<Rightarrow> state);
          state2 = state1\<lparr>updated_at := now w\<rparr>
      in (state2, w\<lparr>batch_states := update_one_upsert state2 (batch_states w)\<rparr>))"

text \<open>
  The reason returned beside the decision; the source's text is
  \<open>Already_completed\<close>: "Batch already completed successfully";
  \<open>Was_stuck\<close>: "Batch was stuck, marked as failed for retry";
  \<open>Currently_running rt\<close>: "Batch currently running (rt seconds)";
  \<open>Max_retries_exceeded m\<close>: "Max retries (m) exceeded";
  \<open>Retry_delayed dt\<close>: "Retry delayed for dt more seconds";
  \<open>No_data_available\<close>: "No data available for this date";
  \<open>Retrying_failed k m\<close>: "Retrying failed batch (attempt k/m)";
  \<open>Ready_for_processing\<close>: "Batch ready for processing".
\<close>

datatype reason =
    Already_completed
  | Was_stuck
  | Currently_running timedelta
  | Max_retries_exceeded nat
  | Retry_delayed timedelta
  | No_data_available
  | Retrying_failed nat nat
  | Ready_for_processing

definition stuck_message :: "timedelta \<Rightarrow> string" where
  "stuck_message runtime = ''Batch stuck in RUNNING state for '' @ timedelta_str runtime"

text \<open>The checks of \<open>should_process_batch\<close> after the one for a running batch.\<close>

definition retry_and_data_checks :: "env \<Rightarrow> datetime \<Rightarrow> BatchState \<Rightarrow> world \<Rightarrow> bool \<times> reason" where
  "retry_and_data_checks env batch_date0 state w =
     (if \<not> can_retry (now w) state then (False, Max_retries_exceeded (max_retries state))
      else if (case retry_after state of None \<Rightarrow> False | Some ra \<Rightarrow> now w < ra)
        then (False, Retry_delayed (the (retry_after state) - now w))
      else if \<not> has_data_for_date env batch_date0 then (False, No_data_available)
      else if status state = FAILED
        then (True, Retrying_failed (retry_count state + 1) (max_retries state))
      else (True, Ready_for_processing))"

definition should_process_batch ::
  "env \<Rightarrow> datetime \<Rightarrow> world \<Rightarrow> (exn + bool \<times> reason) \<times> world" where
  "should_process_batch env batch_date0 w =
     (case get_or_create_batch_state batch_date0 w of
        (Inl e, w1) \<Rightarrow> (Inl e, w1)
      | (Inr state, w1) \<Rightarrow>
          if status state = COMPLETED then (Inr (False, Already_completed), w1)
          else if status state = RUNNING \<and> started_at state \<noteq> None then
            (let runtime = now w1 - the (started_at state) in
             if runtime > timedelta_hours 2 then
               (case update_batch_state
                       (state\<lparr>status := FAILED, error_message := Some (stuck_message runtime)\<rparr>) w1 of
                  (_, w2) \<Rightarrow> (Inr (True, Was_stuck), w2))
             else (Inr (False, Currently_running runtime), w1))
          else (Inr (retry_and_data_checks env batch_date0 state w1), w1))"

section \<open>services/evaluation\_service.py\<close>

text \<open>\<open>pairs[i:i + n] for i in range(0, len(pairs), n)\<close>, for a positive step \<open>n\<close>\<close>

definition sub_batches :: "nat \<Rightarrow> 'a list \<Rightarrow> 'a list list" where
  "sub_batches n xs = map (\<lambda>k. take n (drop (k * n) xs)) [0 ..< (length xs + n - 1) div n]"

text \<open>\<open>_process_sub_batch\<close>: the results of the pairs, in order; a pair whose evaluation
  raised has its error result, which is part of the judge's outcome.\<close>

definition process_sub_batch ::
  "env \<Rightarrow> TranscriptSummaryPair list \<Rightarrow> string \<Rightarrow> EvaluationResult list" where
  "process_sub_batch env pairs bid = map (\<lambda>p. evaluate_single_pair env p bid) pairs"

definition calculate_batch_statistics ::
  "datetime \<Rightarrow> EvaluationResult list \<Rightarrow> string \<Rightarrow> timedelta \<Rightarrow> exn + BatchEvaluation" where
  "calculate_batch_statistics t results bid ptime =
     (let n_total = length results in
      if n_total = 0
      then BatchEvaluation_init t bid t 0 0 0 0 0 0 0 0 None [] (Some ptime)
      else
        (let n_passed = length (filter (\<lambda>r. eval_status r = PASS) results);
             n_failed = length (filter (\<lambda>r. eval_status r = FAIL) results);
             n_errors = length (filter (\<lambda>r. eval_status r = ERROR) results);
             pass_pct = of_nat n_passed / of_nat n_total * 100;
             fail_pct = of_nat n_failed / of_nat n_total * 100;
             error_pct = of_nat n_errors / of_nat n_total * 100;
             evaluable = n_passed + n_failed;
             acc = (if evaluable > 0 then of_nat n_passed / of_nat evaluable else 0);
             scores = List.map_filter confidence_score results;
             avg = (if scores \<noteq> [] then Some (sum_list scores / of_nat (length scores)) else None)
         in BatchEvaluation_init t bid t n_total n_passed n_failed n_errors pass_pct fail_pct
              error_pct acc avg (map evaluation_id results) (Some ptime)))"

definition ValueError :: exn where
  "ValueError = Exn ''ValueError'' ''builtins'' ''range() arg 3 must not be zero''"

text \<open>\<open>evaluate_batch\<close>: one second of sleep after every sub-batch but the last.\<close>

definition evaluate_batch ::
  "env \<Rightarrow> TranscriptSummaryPair list \<Rightarrow> world
     \<Rightarrow> (exn + EvaluationResult list \<times> BatchEvaluation) \<times> world" where
  "evaluate_batch env pairs w =
     (let bid = new_batch_id env; start_time = now w in
      if BATCH_SIZE env = 0 then (Inl ValueError, w)
      else
        (let chunks = (if BATCH_SIZE env < 0 then [] else sub_batches (nat (BATCH_SIZE env)) pairs);
             results = concat (map (\<lambda>c. process_sub_batch env c bid) chunks);
             w1 = (if chunks = [] then w else sleep (int (length chunks) - 1) w)
         in case calculate_batch_statistics (now w1) results bid (now w1 - start_time) of
              Inl e \<Rightarrow> (Inl e, w1)
            | Inr batch \<Rightarrow> (Inr (results, batch), w1)))"

section \<open>pipeline/evaluator.py\<close>

definition send_batch_failure_alert :: "env \<Rightarrow> datetime \<Rightarrow> world \<Rightarrow> world" where
  "send_batch_failure_alert env d w = send_alert env (Batch_failed d) ''high'' w"

definition send_empty_batch_notification :: "env \<Rightarrow> datetime \<Rightarrow> world \<Rightarrow> world" where
  "send_empty_batch_notification env d w = send_alert env (No_data_found d) ''low'' w"

definition send_accuracy_alert :: "env \<Rightarrow> datetime \<Rightarrow> world \<Rightarrow> world" where
  "send_accuracy_alert env d w = send_alert env (Low_accuracy_alert d) ''high'' w"

text \<open>\<open>db_service.save_evaluation_results\<close>\<close>

definition save_evaluation_results ::
  "env \<Rightarrow> EvaluationResult list \<Rightarrow> BatchEvaluation \<Rightarrow> world \<Rightarrow> (exn + unit) \<times> world" where
  "save_evaluation_results env results batch w =
     (case save_error env results batch of
        Some e \<Rightarrow> (Inl e, w)
      | None \<Rightarrow> (Inr (), w\<lparr>saved_results := saved_results w @ [(results, batch)]\<rparr>))"

text \<open>Python's truth value of a metadata entry.\<close>

fun truthy :: "mval \<Rightarrow> bool" where
  "truthy (MBool b) = b"
| "truthy (MStr s) = (s \<noteq> [])"
| "truthy (MTime t) = True"
| "truthy (MDuration d) = (d \<noteq> 0)"

definition metadata_flag :: "BatchState \<Rightarrow> string \<Rightarrow> bool" where
  "metadata_flag st k = (case map_of (metadata st) k of None \<Rightarrow> False | Some v \<Rightarrow> truthy v)"

definition UnboundLocalError :: exn where
  "UnboundLocalError =
     Exn ''UnboundLocalError'' ''builtins''
       ''local variable email_duration referenced before assignment''"

text \<open>
  Step 5 of \<open>_execute_evaluation_pipeline\<close> and the lines after it. The alert, the report,
  \<open>email_sent\<close> and the assignment of \<open>email_duration\<close> all stand inside the branch
  \<open>if batch.accuracy < settings.ACCURACY_THRESHOLD\<close>; the timing metadata after the branch
  reads \<open>email_duration\<close>, which is unbound when the branch was not taken.
\<close>

definition send_email_step ::
  "env \<Rightarrow> datetime \<Rightarrow> datetime \<Rightarrow> timedelta \<Rightarrow> timedelta \<Rightarrow> timedelta \<Rightarrow> BatchEvaluation
     \<Rightarrow> string \<Rightarrow> BatchState \<Rightarrow> world \<Rightarrow> (exn + BatchEvaluation) \<times> BatchState \<times> world" where
  "send_email_step env evaluation_date0 pipeline_start evaluation_duration save_duration
       report_duration batch path state w =
     (let email_start = now w;
          recovery = (is_recovery state \<or> metadata_flag state ''is_recovery'')
      in if be_accuracy batch < ACCURACY_THRESHOLD env then
           (let w1 = send_accuracy_alert env evaluation_date0 w;
                w2 = sleep 2 w1;
                is_alert_scenario = (be_accuracy batch < ACCURACY_THRESHOLD env)
            in case send_evaluation_report env batch path is_alert_scenario recovery w2 of
                 (Inl e, w3) \<Rightarrow> (Inl e, state, w3)
               | (Inr _, w3) \<Rightarrow>
                   (let email_duration = now w3 - email_start;
                        state1 = state\<lparr>email_sent := True, email_recipients := [ALERT_EMAIL env]\<rparr>
                    in case update_batch_state state1 w3 of
                         (state2, w4) \<Rightarrow>
                           (let total_duration = now w4 - pipeline_start;
                                state3 = state2\<lparr>metadata :=
                                  AList.update ''email_duration_seconds'' (MDuration email_duration)
                                   (AList.update ''report_duration_seconds'' (MDuration report_duration)
                                     (AList.update ''save_duration_seconds'' (MDuration save_duration)
                                       (AList.update ''evaluation_duration_seconds''
                                          (MDuration evaluation_duration)
                                         (AList.update ''pipeline_duration_seconds''
                                            (MDuration total_duration) (metadata state2)))))\<rparr>
                            in case update_batch_state state3 w4 of
                                 (state4, w5) \<Rightarrow> (Inr batch, state4, w5))))
         else (Inl UnboundLocalError, state, w))"

text \<open>Steps 2 to 4, for a non-empty list of pairs, and then step 5.\<close>

definition evaluate_save_report ::
  "env \<Rightarrow> datetime \<Rightarrow> datetime \<Rightarrow> TranscriptSummaryPair list \<Rightarrow> BatchState \<Rightarrow> world
     \<Rightarrow> (exn + BatchEvaluation) \<times> BatchState \<times> world" where
  "evaluate_save_report env evaluation_date0 pipeline_start pairs state w =
     (case update_batch_state (state\<lparr>total_pairs := length pairs\<rparr>) w of
        (state1, w1) \<Rightarrow>
          (case evaluate_batch env pairs w1 of
             (Inl e, w2) \<Rightarrow> (Inl e, state1, w2)
           | (Inr (results, batch), w2) \<Rightarrow>
               (let evaluation_duration = now w2 - now w1;
                    state2 = state1\<lparr>processed_pairs := length results,
                                    successful_evaluations := be_passed batch + be_failed batch,
                                    error_evaluations := errors batch,
                                    passed := be_passed batch,
                                    failed := be_failed batch,
                                    accuracy := Some (be_accuracy batch),
                                    batch_id := Some (be_batch_id batch)\<rparr>
                in case update_batch_state state2 w2 of
                     (state3, w3) \<Rightarrow>
                       (let save_start = now w3 in
                        case save_evaluation_results env results batch w3 of
                          (Inl e, w4) \<Rightarrow> (Inl e, state3, w4)
                        | (Inr _, w4) \<Rightarrow>
                            (let save_duration = now w4 - save_start;
                                 report_start = now w4
                             in case generate_excel_report env batch results of
                                  Inl e \<Rightarrow> (Inl e, state3, w4)
                                | Inr path \<Rightarrow>
                                    (let report_duration = now w4 - report_start in
                                     case update_batch_state
                                            (state3\<lparr>report_path := Some path,
                                                    report_generated := True\<rparr>) w4 of
                                       (state4, w5) \<Rightarrow>
                                         send_email_step env evaluation_date0 pipeline_start
                                           evaluation_duration save_duration report_duration
                                           batch path state4 w5))))))"

text \<open>\<open>_execute_evaluation_pipeline\<close>. The state object is mutated in place, so what was
  assigned before an exception stays assigned: the state comes back in both cases.\<close>

definition execute_evaluation_pipeline ::
  "env \<Rightarrow> datetime \<Rightarrow> BatchState \<Rightarrow> world \<Rightarrow> (exn + BatchEvaluation) \<times> BatchState \<times> world" where
  "execute_evaluation_pipeline env evaluation_date0 state w =
     (let pipeline_start = now w;
          date_start = evaluation_date0;
          date_end = date_start + timedelta_days 1
      in case get_unevaluated_pairs env (date_start, date_end) of
           Inl e \<Rightarrow> (Inl e, state, w)
         | Inr pairs \<Rightarrow>
             if pairs = [] then
               (case BatchEvaluation_init (now w) (''EMPTY-'' @ strftime_Ymd env evaluation_date0)
                       evaluation_date0 0 0 0 0 0 0 0 0 None [] None of
                  Inl e \<Rightarrow> (Inl e, state, w)
                | Inr empty_batch \<Rightarrow>
                    (case update_batch_state
                            (state\<lparr>total_pairs := 0, processed_pairs := 0,
                                   batch_id := Some (be_batch_id empty_batch),
                                   status := SKIPPED, completed_at := Some (now w)\<rparr>) w of
                       (state1, w1) \<Rightarrow>
                         (Inr empty_batch, state1, send_empty_batch_notification env evaluation_date0 w1)))
             else evaluate_save_report env evaluation_date0 pipeline_start pairs state w)"

text \<open>The \<open>except\<close> and \<open>finally\<close> blocks of \<open>run_daily_evaluation\<close>.\<close>

definition backoff_minutes :: "nat \<Rightarrow> int" where
  "backoff_minutes n = min (5 * 2 ^ n) 60"

definition handle_failure :: "env \<Rightarrow> datetime \<Rightarrow> exn \<Rightarrow> BatchState \<Rightarrow> world \<Rightarrow> (exn + bool) \<times> world" where
  "handle_failure env evaluation_date0 e state w =
     (let state1 = set_error (now w) e state;
          state2 = (if can_retry (now w) state1
                    then state1\<lparr>retry_after :=
                           Some (now w + timedelta_minutes (backoff_minutes (retry_count state1)))\<rparr>
                    else state1);
          w1 = send_batch_failure_alert env evaluation_date0 w
      in case update_batch_state state2 w1 of (_, w2) \<Rightarrow> (Inr False, w2))"

text \<open>
  \<open>run_daily_evaluation\<close>, for an initialised pipeline, in two parts. The log line
  "Starting evaluation for ..." is kept in \<open>started_log\<close>; the other log lines have no effect
  and cannot raise. \<open>before_try\<close> is what stands before the \<open>try\<close>:
  what \<open>get_or_create_batch_state\<close> and \<open>should_process_batch\<close> raise reaches the caller
  (\<open>Inl (Inl e)\<close>), a batch that should not be processed returns \<open>True\<close> (\<open>Inl (Inr True)\<close>),
  and otherwise the state is set to \<open>RUNNING\<close> and persisted (\<open>Inr state\<close>).
\<close>

definition before_try ::
  "env \<Rightarrow> datetime \<Rightarrow> world \<Rightarrow> ((exn + bool) + BatchState) \<times> world" where
  "before_try env evaluation_date1 w =
     (case get_or_create_batch_state evaluation_date1 w of
        (Inl e, w1) \<Rightarrow> (Inl (Inl e), w1)
      | (Inr state, w1) \<Rightarrow>
          (case should_process_batch env evaluation_date1 w1 of
             (Inl e, w2) \<Rightarrow> (Inl (Inl e), w2)
           | (Inr (should_process, _), w2) \<Rightarrow>
               if \<not> should_process then (Inl (Inr True), w2)
               else
                 (let state1 = state\<lparr>status := RUNNING, started_at := Some (now w2)\<rparr>;
                      state2 = (if status state1 = FAILED
                                then increment_retry (now w2) state1 else state1)
                  in case update_batch_state state2 w2 of
                       (state3, w3) \<Rightarrow> (Inr state3, w3))))"

text \<open>The \<open>try\<close> block with its \<open>except\<close> and \<open>finally\<close>: it ends with the assignment of
  \<open>COMPLETED\<close>, whatever status the pipeline left.\<close>

definition try_block :: "env \<Rightarrow> datetime \<Rightarrow> BatchState \<Rightarrow> world \<Rightarrow> (exn + bool) \<times> world" where
  "try_block env evaluation_date1 state w =
     (case execute_evaluation_pipeline env evaluation_date1 state w of
        (Inr batch_result, state1, w1) \<Rightarrow>
          (case update_batch_state
                  (state1\<lparr>status := COMPLETED, completed_at := Some (now w1)\<rparr>) w1 of
             (_, w2) \<Rightarrow> (Inr True, w2))
      | (Inl e, state1, w1) \<Rightarrow> handle_failure env evaluation_date1 e state1 w1)"

definition run_daily_evaluation :: "env \<Rightarrow> datetime \<Rightarrow> world \<Rightarrow> (exn + bool) \<times> world" where
  "run_daily_evaluation env evaluation_date0 w =
     (let evaluation_date1 = replace_midnight evaluation_date0 in
      case before_try env evaluation_date1
             (w\<lparr>started_log := started_log w @ [evaluation_date1]\<rparr>) of
        (Inl r, w1) \<Rightarrow> (r, w1)
      | (Inr state, w1) \<Rightarrow> try_block env evaluation_date1 state w1)"

section \<open>pipeline/recovery\_manager.py\<close>

text \<open>The \<open>if\<close>/\<open>elif\<close> chain of \<open>_find_missing_evaluations\<close> for one date.\<close>

definition needs_evaluation :: "env \<Rightarrow> datetime \<Rightarrow> datetime \<Rightarrow> BatchState \<Rightarrow> bool" where
  "needs_evaluation env t current_date state =
     (if status state = COMPLETED then False
      else if status state = SKIPPED then False
      else if status state \<in> set [FAILED, PARTIAL] then can_retry t state
      else if status state = PENDING then has_data_for_date env current_date
      else if status state = RUNNING then
        (case started_at state of
           None \<Rightarrow> False
         | Some s \<Rightarrow> t - s > timedelta_hours 2)
      else False)"

text \<open>The \<open>while current_date < end_date\<close> loop, over the dates it visits.\<close>

fun scan_dates ::
  "env \<Rightarrow> datetime list \<Rightarrow> datetime list \<Rightarrow> world \<Rightarrow> (exn + datetime list) \<times> world" where
  "scan_dates env [] missing_dates w = (Inr missing_dates, w)"
| "scan_dates env (current_date # rest) missing_dates w =
     (case get_or_create_batch_state current_date w of
        (Inl e, w1) \<Rightarrow> (Inl e, w1)
      | (Inr state, w1) \<Rightarrow>
          scan_dates env rest
            (if needs_evaluation env (now w1) current_date state
             then missing_dates @ [current_date] else missing_dates) w1)"

definition window_dates :: "datetime \<Rightarrow> int \<Rightarrow> datetime list" where
  "window_dates t lookback_days =
     (let end_date = replace_midnight t;
          start_date = end_date - timedelta_days lookback_days
      in map (\<lambda>k. start_date + timedelta_days (int k)) [0 ..< nat lookback_days])"

definition find_missing_evaluations :: "env \<Rightarrow> world \<Rightarrow> (exn + datetime list) \<times> world" where
  "find_missing_evaluations env w =
     scan_dates env (window_dates (now w) (RECOVERY_LOOKBACK_DAYS env)) [] w"

text \<open>
  \<open>_recover_single_batch\<close>: every exception ends in \<open>return False\<close>. The success
  notification formats \<open>state.accuracy\<close> of the state object read before the run with
  \<open>:.2%\<close>, which raises \<open>TypeError\<close> when that accuracy is \<open>None\<close>.
\<close>

definition recover_single_batch :: "env \<Rightarrow> datetime \<Rightarrow> world \<Rightarrow> bool \<times> world" where
  "recover_single_batch env batch_date0 w =
     (case get_or_create_batch_state batch_date0 w of
        (Inl e, w1) \<Rightarrow> (False, w1)
      | (Inr state, w1) \<Rightarrow>
          if status state = COMPLETED then (True, w1)
          else if \<not> can_retry (now w1) state
            then (False, send_alert env (Max_retries_exceeded_alert batch_date0) ''critical'' w1)
          else
            (let state1 = state\<lparr>is_recovery := True, recovery_attempted := True,
                                recovery_count := recovery_count state + 1,
                                metadata :=
                                  AList.update ''is_recovery'' (MBool True)
                                   (AList.update ''recovery_trigger'' (MStr ''RecoveryManager'')
                                     (AList.update ''recovery_triggered_at'' (MTime (now w1))
                                        (metadata state)))\<rparr>
             in case update_batch_state state1 w1 of
                  (state2, w2) \<Rightarrow>
                    (case run_daily_evaluation env batch_date0 w2 of
                       (Inl e, w3) \<Rightarrow> (False, w3)
                     | (Inr success, w3) \<Rightarrow>
                         (let w4 = w3\<lparr>total_recoveries := total_recoveries w3 + 1\<rparr> in
                          if success then
                            (if accuracy state2 = None then (False, w4)
                             else (True, send_alert env (Recovery_success batch_date0) ''low'' w4))
                          else (False, w4)))))"

text \<open>The loop \<open>for i, date in enumerate(sorted(missing_dates), 1)\<close>; \<open>n\<close> is
  \<open>len(missing_dates)\<close>.\<close>

fun recover_loop ::
  "env \<Rightarrow> nat \<Rightarrow> nat \<Rightarrow> datetime list \<Rightarrow> nat \<times> nat \<Rightarrow> world \<Rightarrow> (nat \<times> nat) \<times> world" where
  "recover_loop env n i [] counts w = (counts, w)"
| "recover_loop env n i (d # ds) (recovered_count, failed_count) w =
     (case recover_single_batch env d w of
        (success, w1) \<Rightarrow>
          (let counts = (if success then (recovered_count + 1, failed_count)
                         else (recovered_count, failed_count + 1));
               w2 = (if success
                     then w1\<lparr>successful_recoveries := successful_recoveries w1 + 1\<rparr>
                     else w1\<lparr>failed_recoveries := failed_recoveries w1 + 1\<rparr>);
               w3 = (if i < n then sleep 5 w2 else w2)
           in recover_loop env n (i + 1) ds counts w3))"

text \<open>\<open>_send_recovery_summary\<close> reads the state of every date before it sends.\<close>

fun read_states :: "datetime list \<Rightarrow> world \<Rightarrow> (exn + unit) \<times> world" where
  "read_states [] w = (Inr (), w)"
| "read_states (d # ds) w =
     (case get_or_create_batch_state d w of
        (Inl e, w1) \<Rightarrow> (Inl e, w1)
      | (Inr _, w1) \<Rightarrow> read_states ds w1)"

definition send_recovery_summary ::
  "env \<Rightarrow> datetime list \<Rightarrow> nat \<Rightarrow> nat \<Rightarrow> world \<Rightarrow> (exn + unit) \<times> world" where
  "send_recovery_summary env missing_dates recovered failed_n w =
     (case read_states (sort missing_dates) w of
        (Inl e, w1) \<Rightarrow> (Inl e, w1)
      | (Inr _, w1) \<Rightarrow> (Inr (), send_alert env (Recovery_summary recovered failed_n) ''normal'' w1))"

definition recover_all_missed_batches :: "env \<Rightarrow> world \<Rightarrow> nat \<times> world" where
  "recover_all_missed_batches env w =
     (case find_missing_evaluations env w of
        (Inl e, w1) \<Rightarrow> (0, send_alert env Recovery_process_error ''high'' w1)
      | (Inr missing_dates, w1) \<Rightarrow>
          if missing_dates = [] then (0, w1)
          else
            (case recover_loop env (length missing_dates) 1 (sort missing_dates) (0, 0) w1 of
               ((recovered_count, failed_count), w2) \<Rightarrow>
                 if recovered_count > 0 \<or> failed_count > 0 then
                   (case send_recovery_summary env missing_dates recovered_count failed_count w2 of
                      (Inl e, w3) \<Rightarrow> (0, send_alert env Recovery_process_error ''high'' w3)
                    | (Inr _, w3) \<Rightarrow> (recovered_count, w3))
                 else (recovered_count, w2)))"

section \<open>pipeline/scheduler.py\<close>

text \<open>\<open>_calculate_next_run\<close>, for the run time \<open>run_hour:run_minute\<close>. The current time and
  the result carry the same time zone object, so they compare as wall-clock times.\<close>

definition calculate_next_run :: "int \<Rightarrow> int \<Rightarrow> datetime \<Rightarrow> datetime" where
  "calculate_next_run run_hour run_minute current_time =
     (let next_run = replace_hm current_time run_hour run_minute
      in if current_time \<ge> next_run then next_run + timedelta_days 1 else next_run)"

section \<open>Concurrent callers of get\_or\_create\_batch\_state\<close>

text \<open>
  \<open>get_or_create_batch_state\<close> awaits the collection three times: the first \<open>find_one\<close>,
  \<open>insert_one\<close>, and the \<open>find_one\<close> after a \<open>DuplicateKeyError\<close>. Each is one atomic step
  of the collection; between two steps of one caller, any other caller may take steps.
  A caller is the date it asked for, the time it reads, and where it stands.
\<close>

datatype position =
    At_find
  | At_insert BatchState
  | At_reread
  | Returned BatchState
  | Raised exn

record caller =
  asked_date :: datetime
  clock :: datetime
  position :: position

definition caller_step :: "caller \<Rightarrow> BatchState list \<Rightarrow> caller \<times> BatchState list" where
  "caller_step c coll =
     (let d = replace_midnight (asked_date c) in
      case position c of
        At_find \<Rightarrow>
          (case find_one d coll of
             Some doc \<Rightarrow> (c\<lparr>position := Returned (BatchState_load (clock c) doc)\<rparr>, coll)
           | None \<Rightarrow> (c\<lparr>position := At_insert (BatchState_new (clock c) d)\<rparr>, coll))
      | At_insert state \<Rightarrow>
          (case insert_one state coll of
             Inr coll1 \<Rightarrow> (c\<lparr>position := Returned state\<rparr>, coll1)
           | Inl _ \<Rightarrow> (c\<lparr>position := At_reread\<rparr>, coll))
      | At_reread \<Rightarrow>
          (case find_one d coll of
             Some doc \<Rightarrow> (c\<lparr>position := Returned (BatchState_load (clock c) doc)\<rparr>, coll)
           | None \<Rightarrow> (c\<lparr>position := Raised NoneType_error\<rparr>, coll))
      | Returned state \<Rightarrow> (c, coll)
      | Raised e \<Rightarrow> (c, coll))"

text \<open>A schedule names, step by step, the caller that moves.\<close>

fun run_schedule :: "nat list \<Rightarrow> caller list \<times> BatchState list \<Rightarrow> caller list \<times> BatchState list" where
  "run_schedule [] g = g"
| "run_schedule (i # sched) (callers, coll) =
     (if i < length callers
      then (case caller_step (callers ! i) coll of
              (c, coll1) \<Rightarrow> run_schedule sched (callers[i := c], coll1))
      else run_schedule sched (callers, coll))"


section \<open>Example inputs\<close>

text \<open>Midnight of day \<open>k\<close>, and a time of that day.\<close>

definition day :: "int \<Rightarrow> datetime" where
  "day k = timedelta_days k"

definition good_pair :: TranscriptSummaryPair where
  "good_pair = \<lparr> interaction_id = ''good'', transcript = ''good'', post_call_summary = ''summary'' \<rparr>"

definition bad_pair :: TranscriptSummaryPair where
  "bad_pair = \<lparr> interaction_id = ''bad'', transcript = ''bad'', post_call_summary = ''summary'' \<rparr>"

text \<open>A judge that passes \<open>good_pair\<close>, fails \<open>bad_pair\<close> and errors on anything else.\<close>

definition example_judge :: "TranscriptSummaryPair \<Rightarrow> string \<Rightarrow> EvaluationResult" where
  "example_judge p bid =
     \<lparr> evaluation_id = ''eval-'' @ interaction_id p, result_batch_id = bid,
       result_interaction_id = interaction_id p,
       eval_status = (if transcript p = ''good'' then PASS
                      else if transcript p = ''bad'' then FAIL else ERROR),
       eval_reason = ''reason'', confidence_score = None \<rparr>"

text \<open>An environment where every day has data, the data source returns \<open>pairs\<close>, and
  every other collaborator succeeds; the settings are the defaults.\<close>

definition example_env :: "TranscriptSummaryPair list \<Rightarrow> env" where
  "example_env pairs =
     \<lparr> has_data = (\<lambda>d. True),
       get_unevaluated_pairs = (\<lambda>r. Inr pairs),
       evaluate_single_pair = example_judge,
       save_error = (\<lambda>results batch. None),
       generate_excel_report = (\<lambda>batch results. Inr ''report.xlsx''),
       email_delivers = (\<lambda>s. True),
       new_batch_id = ''BATCH-00000000'',
       strftime_Ymd = (\<lambda>d. show_int (d div 86400000000)),
       ACCURACY_THRESHOLD = 85 / 100,
       BATCH_SIZE = 50,
       ALERT_EMAIL = ''alerts@example.com'',
       RECOVERY_LOOKBACK_DAYS = 3 \<rparr>"

definition example_world :: "datetime \<Rightarrow> BatchState list \<Rightarrow> world" where
  "example_world t states =
     \<lparr> now = t, batch_states = states, saved_results = [], outbox = [], started_log = [],
       total_recoveries = 0, successful_recoveries = 0, failed_recoveries = 0 \<rparr>"

text \<open>The state of day \<open>d\<close> created at time 0 and since set to status \<open>s\<close>.\<close>

definition example_state :: "datetime \<Rightarrow> BatchStatus \<Rightarrow> BatchState" where
  "example_state d s = (BatchState_new 0 d)\<lparr>status := s\<rparr>"


text \<open>An evaluation result with status \<open>s\<close>.\<close>

definition example_result :: "EvaluationStatus \<Rightarrow> EvaluationResult" where
  "example_result s =
     \<lparr> evaluation_id = ''eval'', result_batch_id = ''BATCH-00000000'',
       result_interaction_id = ''interaction'', eval_status = s, eval_reason = ''reason'',
       confidence_score = None \<rparr>"



section \<open>An invariant of the concurrent callers\<close>



section \<open>Auxiliary facts\<close>

lemma replace_midnight_idem: "replace_midnight (replace_midnight d) = replace_midnight d"
  by (simp add: replace_midnight_def)

lemma replace_midnight_day: "replace_midnight (day k) = day k"
  by (simp add: replace_midnight_def day_def timedelta_days_def)

lemma find_one_SomeD: "find_one d coll = Some doc \<Longrightarrow> batch_date doc = d \<and> doc \<in> set coll"
  by (auto simp: find_one_def find_Some_iff)



lemma find_one_update_one_upsert:
  "batch_date st = d \<Longrightarrow> find_one d (update_one_upsert st coll) = Some st"
  by (induction coll) (auto simp: find_one_def)

lemma BatchState_new_fields:
  "batch_date (BatchState_new t d) = replace_midnight d"
  "status (BatchState_new t d) = PENDING"
  "started_at (BatchState_new t d) = None"
  "retry_count (BatchState_new t d) = 0"
  "max_retries (BatchState_new t d) = 3"
  "retry_after (BatchState_new t d) = None"
  "is_recovery (BatchState_new t d) = False"
  "metadata (BatchState_new t d) = []"
  "accuracy (BatchState_new t d) = None"
  "email_sent (BatchState_new t d) = False"
  "report_generated (BatchState_new t d) = False"
  "error_type (BatchState_new t d) = None"
  "error_message (BatchState_new t d) = None"
  "previous_status (BatchState_new t d) = None"
  "recovery_count (BatchState_new t d) = 0"
  by (simp_all add: BatchState_new_def)

lemma get_or_create_existing:
  "find_one (replace_midnight d) (batch_states w) = Some doc \<Longrightarrow>
   get_or_create_batch_state d w = (Inr (doc\<lparr>updated_at := now w\<rparr>), w)"
  by (frule find_one_SomeD)
     (simp add: get_or_create_batch_state_def BatchState_load_def replace_midnight_idem)


lemma example_world_fields:
  "now (example_world t states) = t"
  "batch_states (example_world t states) = states"
  "saved_results (example_world t states) = []"
  "outbox (example_world t states) = []"
  "started_log (example_world t states) = []"
  by (simp_all add: example_world_def)

lemma example_state_fields:
  "batch_date (example_state (day k) s) = day k"
  "status (example_state d s) = s"
  "started_at (example_state d s) = None"
  "retry_count (example_state d s) = 0"
  "max_retries (example_state d s) = 3"
  "retry_after (example_state d s) = None"
  by (simp_all add: example_state_def BatchState_new_fields replace_midnight_day)

lemma example_env_fields:
  "has_data (example_env pairs) = (\<lambda>d. True)"
  "get_unevaluated_pairs (example_env pairs) = (\<lambda>r. Inr pairs)"
  "evaluate_single_pair (example_env pairs) = example_judge"
  "save_error (example_env pairs) = (\<lambda>results batch. None)"
  "generate_excel_report (example_env pairs) = (\<lambda>batch results. Inr ''report.xlsx'')"
  "email_delivers (example_env pairs) = (\<lambda>s. True)"
  "new_batch_id (example_env pairs) = ''BATCH-00000000''"
  "ACCURACY_THRESHOLD (example_env pairs) = 85 / 100"
  "BATCH_SIZE (example_env pairs) = 50"
  "ALERT_EMAIL (example_env pairs) = ''alerts@example.com''"
  "RECOVERY_LOOKBACK_DAYS (example_env pairs) = 3"
  by (simp_all add: example_env_def)

section \<open>The decision procedure\<close>

text \<open>
  Claim C5. A stored state with status \<open>RUNNING\<close> whose \<open>started_at\<close> is more than two hours
  before now is marked \<open>FAILED\<close> with the message that it was stuck, persisted (with
  \<open>previous_status\<close> and \<open>updated_at\<close>), and the decision is \<open>True\<close> with the reason
  \<open>Was_stuck\<close>, whatever the retry count, the retry delay and the data probe say. With
  \<open>started_at\<close> at most two hours before now the decision is \<open>False\<close> with the reason
  \<open>Currently_running\<close>, and nothing is written.
\<close>

theorem should_process_stuck_running:
  assumes "find_one (replace_midnight d) (batch_states w) = Some doc"
      and "status doc = RUNNING" and "started_at doc = Some s"
  shows "(timedelta_hours 2 < now w - s \<longrightarrow>
            (\<exists>st. should_process_batch env d w
                    = (Inr (True, Was_stuck), w\<lparr>batch_states := update_one_upsert st (batch_states w)\<rparr>)
               \<and> st = doc\<lparr>status := FAILED,
                           error_message := Some (stuck_message (now w - s)),
                           previous_status := Some RUNNING, updated_at := now w\<rparr>
               \<and> find_one (replace_midnight d) (update_one_upsert st (batch_states w)) = Some st))
       \<and> (\<not> timedelta_hours 2 < now w - s \<longrightarrow>
            should_process_batch env d w = (Inr (False, Currently_running (now w - s)), w))"
proof -
  have bd: "batch_date doc = replace_midnight d"
    using assms(1) by (simp add: find_one_SomeD)
  show ?thesis
    using assms bd
    by (auto simp add: should_process_batch_def get_or_create_existing
        update_batch_state_def Let_def find_one_update_one_upsert)
qed

theorem should_process_stuck_running_witness:
  "should_process_batch (example_env [])  (day 1)
      (example_world (day 1 + timedelta_hours 3) [(example_state (day 1) RUNNING)\<lparr>started_at := Some (day 1)\<rparr>])
     = (Inr (True, Was_stuck),
        example_world (day 1 + timedelta_hours 3)
          [(example_state (day 1) RUNNING)
             \<lparr>started_at := Some (day 1), status := FAILED,
              error_message := Some ''Batch stuck in RUNNING state for 3:00:00'',
              previous_status := Some RUNNING, updated_at := day 1 + timedelta_hours 3\<rparr>])
   \<and> should_process_batch (example_env [])  (day 1)
      (example_world (day 1 + timedelta_hours 1) [(example_state (day 1) RUNNING)\<lparr>started_at := Some (day 1)\<rparr>])
     = (Inr (False, Currently_running (timedelta_hours 1)),
        example_world (day 1 + timedelta_hours 1) [(example_state (day 1) RUNNING)\<lparr>started_at := Some (day 1)\<rparr>])"
proof -
  let ?doc = "(example_state (day 1) RUNNING)\<lparr>started_at := Some (day 1)\<rparr>"
  have f: "\<And>t. find_one (replace_midnight (day 1)) (batch_states (example_world t [?doc])) = Some ?doc"
    by (simp add: find_one_def example_world_fields example_state_fields replace_midnight_day)
  have msg: "stuck_message 10800000000 = ''Batch stuck in RUNNING state for 3:00:00''"
    by (simp add: stuck_message_def timedelta_str_def zero_pad_def Let_def)
  show ?thesis
    using should_process_stuck_running [OF f, of "day 1" "day 1 + timedelta_hours 3" "example_env []"]
          should_process_stuck_running [OF f, of "day 1" "day 1 + timedelta_hours 1" "example_env []"]
    by (simp add: example_state_fields example_world_fields msg timedelta_hours_def example_world_def)
qed



section \<open>The scheduler\<close>

text \<open>
  Claim C9. With a run time \<open>h:m\<close>, the next run is today's run time when the current time
  is strictly before it and tomorrow's otherwise; it always lies in the future, at most a day
  ahead. With run time 00:01, at 00:01:30 of day \<open>k\<close> the next run is 00:01:00 of day
  \<open>k + 1\<close>.
\<close>

theorem next_run_today_or_tomorrow:
  assumes "0 \<le> h" and "h < 24" and "0 \<le> m" and "m < 60"
  shows "calculate_next_run h m t =
           (if t < replace_hm t h m then replace_hm t h m
            else replace_hm (t + timedelta_days 1) h m)
       \<and> t < calculate_next_run h m t
       \<and> calculate_next_run h m t \<le> t + timedelta_days 1
       \<and> calculate_next_run 0 1 (day k + timedelta_seconds 90) = day (k + 1) + timedelta_minutes 1"
proof -
  have next_day: "replace_hm (t + timedelta_days 1) h m = replace_hm t h m + timedelta_days 1"
    by (simp add: replace_hm_def replace_midnight_def timedelta_days_def)
  have eq: "calculate_next_run h m t =
           (if t < replace_hm t h m then replace_hm t h m
            else replace_hm (t + timedelta_days 1) h m)"
    by (simp add: calculate_next_run_def Let_def next_day)
  have lo: "replace_midnight t \<le> t" and hi: "t < replace_midnight t + timedelta_days 1"
    by (simp_all add: replace_midnight_def timedelta_days_def)
  have hm: "0 \<le> timedelta_hours h + timedelta_minutes m"
           "timedelta_hours h + timedelta_minutes m < timedelta_days 1"
    using assms by (simp_all add: timedelta_hours_def timedelta_minutes_def timedelta_days_def)
  have future: "t < calculate_next_run h m t"
    using hi hm by (simp add: calculate_next_run_def Let_def replace_hm_def)
  have within: "calculate_next_run h m t \<le> t + timedelta_days 1"
    using lo hm by (simp add: calculate_next_run_def Let_def replace_hm_def)
  have scenario:
    "calculate_next_run 0 1 (day k + timedelta_seconds 90) = day (k + 1) + timedelta_minutes 1"
    by (simp add: calculate_next_run_def Let_def replace_hm_def replace_midnight_def day_def
          timedelta_days_def timedelta_seconds_def timedelta_minutes_def timedelta_hours_def
          algebra_simps)
  show ?thesis
    using eq future within scenario by blast
qed

theorem next_run_today_or_tomorrow_witness:
  "calculate_next_run 0 1 (day 5 + timedelta_seconds 90) = day 6 + timedelta_minutes 1
   \<and> calculate_next_run 0 1 (day 5 + timedelta_seconds 30) = day 5 + timedelta_minutes 1
   \<and> day 5 + timedelta_seconds 90 < calculate_next_run 0 1 (day 5 + timedelta_seconds 90)"
  using next_run_today_or_tomorrow [of 0 1 "day 5 + timedelta_seconds 90" 5]
        next_run_today_or_tomorrow [of 0 1 "day 5 + timedelta_seconds 30" 5]
  by (simp add: replace_hm_def replace_midnight_def day_def timedelta_days_def
        timedelta_seconds_def timedelta_minutes_def timedelta_hours_def)

section \<open>Statistics\<close>

lemma example_judge_fields:
  "eval_status (example_judge p bid) = (if transcript p = ''good'' then PASS
                      else if transcript p = ''bad'' then FAIL else ERROR)"
  "confidence_score (example_judge p bid) = None"
  "evaluation_id (example_judge p bid) = ''eval-'' @ interaction_id p"
  by (simp_all add: example_judge_def)

lemma pair_fields: "transcript good_pair = ''good''" "transcript bad_pair = ''bad''"
  "interaction_id good_pair = ''good''" "interaction_id bad_pair = ''bad''"
  by (simp_all add: good_pair_def bad_pair_def)

lemma result_status:
  "eval_status (example_result s) = s" "confidence_score (example_result s) = None"
  by (simp_all add: example_result_def)

lemma py_round_4_5: "py_round (4 / 5) 4 = 4 / 5"
  by (simp add: py_round_def round_half_even_def Let_def)

lemma py_round_16_19: "py_round (16 / 19) 4 = 8421 / 10000"
proof -
  have "\<lfloor>160000 / 19 :: rat\<rfloor> = 8421"
    by (rule floor_unique) simp_all
  then show ?thesis
    by (simp add: py_round_def round_half_even_def Let_def)
qed

text \<open>
  Claim C4, at 80 passed, 15 failed and 5 errors: \<open>validate_accuracy\<close> replaces the accuracy
  \<open>80 / 95\<close> computed by \<open>_calculate_batch_statistics\<close> by \<open>round(80 / 100, 4)\<close>, so the
  batch records the accuracy 0.8, not 0.8421.
\<close>

theorem accuracy_counts_errors_in_denominator:
  "case calculate_batch_statistics t
          (replicate 80 (example_result PASS) @ replicate 15 (example_result FAIL)
             @ replicate 5 (example_result ERROR)) bid ptime of
     Inl e \<Rightarrow> False
   | Inr batch \<Rightarrow>
       be_passed batch = 80 \<and> be_failed batch = 15 \<and> errors batch = 5
       \<and> total_evaluations batch = 100
       \<and> be_accuracy batch = 4 / 5
       \<and> be_accuracy batch \<noteq> 8421 / 10000"
  by (simp add: calculate_batch_statistics_def Let_def result_status List.map_filter_def
        BatchEvaluation_init_def validate_accuracy_def py_round_4_5)


section \<open>The orchestrator\<close>


lemma before_try_existing:
  assumes "replace_midnight d = d" and "find_one d (batch_states w) = Some doc"
      and "status doc \<noteq> COMPLETED" and "status doc \<noteq> RUNNING"
      and "can_retry (now w) doc" and "has_data env d"
  shows "before_try env d w =
           (Inr (doc\<lparr>status := RUNNING, started_at := Some (now w),
                     previous_status := Some (status doc), updated_at := now w\<rparr>),
            w\<lparr>batch_states := update_one_upsert
                 (doc\<lparr>status := RUNNING, started_at := Some (now w),
                       previous_status := Some (status doc), updated_at := now w\<rparr>)
                 (batch_states w)\<rparr>)"
proof -
  have bd: "batch_date doc = d"
    using assms(2) by (simp add: find_one_SomeD)
  have g: "get_or_create_batch_state d w = (Inr (doc\<lparr>updated_at := now w\<rparr>), w)"
    using assms(1,2) get_or_create_existing [of d w doc] by simp
  have ra: "\<not> (case retry_after doc of None \<Rightarrow> False | Some ra \<Rightarrow> now w < ra)"
    using assms(5) by (simp add: can_retry_def split: if_splits)
  have sp: "\<exists>r. should_process_batch env d w = (Inr (True, r), w)"
    using assms(1,3,4,5,6) ra
    by (auto simp add: should_process_batch_def g retry_and_data_checks_def can_retry_def
          has_data_for_date_def split: if_splits)
  then obtain r where sp': "should_process_batch env d w = (Inr (True, r), w)" ..
  show ?thesis
    using assms(2,4) bd
    by (simp add: before_try_def g sp' Let_def update_batch_state_def)
qed






lemma send_email_step_batch_date:
  "send_email_step env d ps ed sd rd batch path st w = (r, st1, w1) \<Longrightarrow> batch_date st1 = batch_date st"
  by (auto simp: send_email_step_def Let_def update_batch_state_def
      split: prod.splits sum.splits if_splits option.splits)

lemma evaluate_save_report_batch_date:
  "evaluate_save_report env d ps pairs st w = (r, st1, w1) \<Longrightarrow> batch_date st1 = batch_date st"
  by (auto simp: evaluate_save_report_def Let_def update_batch_state_def
      split: prod.splits sum.splits if_splits option.splits dest!: send_email_step_batch_date)

lemma execute_evaluation_pipeline_batch_date:
  "execute_evaluation_pipeline env d st w = (r, st1, w1) \<Longrightarrow> batch_date st1 = batch_date st"
  by (auto simp: execute_evaluation_pipeline_def Let_def update_batch_state_def
      split: prod.splits sum.splits if_splits option.splits dest!: evaluate_save_report_batch_date)








section \<open>The recovery sweep\<close>


lemma upt_3: "[0 ..< 3] = [0, 1, 2]"
  by (simp add: upt_rec [of 0] upt_rec [of 1] upt_rec [of 2] upt_rec [of 3]
        upt_rec [of "Suc 0"] upt_rec [of "Suc (Suc 0)"])

lemma window_example: "window_dates (day 10) 3 = [day 7, day 8, day 9]"
  by (simp add: window_dates_def Let_def replace_midnight_day upt_3)
     (simp add: day_def timedelta_days_def)


lemma day_neq: "day 7 \<noteq> day 8" "day 8 \<noteq> day 7" "day 9 \<noteq> day 8" "day 8 \<noteq> day 9"
  "day 9 \<noteq> day 7" "day 7 \<noteq> day 9" "day 10 - day 8 = timedelta_days 2"
  by (simp_all add: day_def timedelta_days_def)


lemma example_state_more:
  "accuracy (example_state d s) = None" "is_recovery (example_state d s) = False"
  "metadata (example_state d s) = []" "recovery_count (example_state d s) = 0"
  by (simp_all add: example_state_def BatchState_new_fields)

lemma day_neq2: "day 7 \<noteq> day 9" "day 9 \<noteq> day 7" "day 8 \<noteq> day 9" "day 9 \<noteq> day 8"
  by (simp_all add: day_def timedelta_days_def)

lemma example_world_batch_states:
  "(example_world t xs)\<lparr>batch_states := ys\<rparr> = example_world t ys"
  by (simp add: example_world_def)

lemma get_or_create_present:
  assumes "replace_midnight d \<in> set (map batch_date (batch_states w))"
  shows "\<exists>st. get_or_create_batch_state d w = (Inr st, w)"
proof -
  obtain doc where "find_one (replace_midnight d) (batch_states w) = Some doc"
    using assms by (cases "find_one (replace_midnight d) (batch_states w)")
      (auto simp: find_one_def find_None_iff)
  then show ?thesis
    by (simp add: get_or_create_existing)
qed

lemma read_states_present:
  "list_all (\<lambda>d. replace_midnight d \<in> set (map batch_date (batch_states w))) ds \<Longrightarrow>
   read_states ds w = (Inr (), w)"
proof (induction ds)
  case Nil
  then show ?case by simp
next
  case (Cons d ds)
  then obtain st where "get_or_create_batch_state d w = (Inr st, w)"
    using get_or_create_present [of d w] by auto
  with Cons show ?case by simp
qed

lemma sub_batches_one: "sub_batches 50 [bad_pair] = [[bad_pair]]"
  by (simp add: sub_batches_def)

lemma evaluate_batch_bad:
  "evaluate_batch (example_env ps) [bad_pair] w =
    (Inr ([example_judge bad_pair ''BATCH-00000000''],
       \<lparr>be_batch_id = ''BATCH-00000000'', evaluation_date = now w, total_evaluations = 1,
            be_passed = 0, be_failed = 1, errors = 0,
            pass_percentage = 0, fail_percentage = 100, error_percentage = 0,
            be_accuracy = 0, average_confidence = None,
            evaluation_ids = [''eval-bad''], be_created_at = now w,
            processing_time_seconds = Some 0\<rparr>), w)"
  by (simp add: evaluate_batch_def Let_def example_env_fields sub_batches_one process_sub_batch_def
       sleep_def timedelta_seconds_def
      calculate_batch_statistics_def example_judge_fields pair_fields List.map_filter_def
       BatchEvaluation_init_def validate_accuracy_def py_round_def round_half_even_def)




lemma update_one_upsert_twice:
  "batch_date a = batch_date b \<Longrightarrow>
   update_one_upsert b (update_one_upsert a coll) = update_one_upsert b coll"
  by (induction coll) auto

lemma update_batch_state_result:
  "update_batch_state st w =
     (fst (update_batch_state st w),
      w\<lparr>batch_states := update_one_upsert (fst (update_batch_state st w)) (batch_states w)\<rparr>)"
  by (simp add: update_batch_state_def Let_def)

lemma update_batch_state_fields:
  "batch_date (fst (update_batch_state st w)) = batch_date st"
  "status (fst (update_batch_state st w)) = status st"
  "retry_count (fst (update_batch_state st w)) = retry_count st"
  "email_sent (fst (update_batch_state st w)) = email_sent st"
  "accuracy (fst (update_batch_state st w)) = accuracy st"
  by (simp_all add: update_batch_state_def Let_def split: option.splits)

text \<open>
  Below the threshold, with a provider that delivers: the alert is sent first, then the
  report, tagged as alert; \<open>email_sent\<close> is set and persisted.
\<close>

lemma send_email_step_below:
  assumes "be_accuracy batch < ACCURACY_THRESHOLD env"
      and "email_delivers env (Evaluation_report (evaluation_date batch) True
             (is_recovery state \<or> metadata_flag state ''is_recovery''))"
  shows "\<exists>st. send_email_step env d ps ed sd rd batch path state w =
           (Inr batch, st,
            w\<lparr>now := now w + timedelta_seconds 2,
              outbox := outbox w @
                [Email (Low_accuracy_alert d) ''high'' (email_delivers env (Low_accuracy_alert d)),
                 Email (Evaluation_report (evaluation_date batch) True
                          (is_recovery state \<or> metadata_flag state ''is_recovery'')) ''high'' True],
              batch_states := update_one_upsert st (batch_states w)\<rparr>)
         \<and> batch_date st = batch_date state \<and> status st = status state
         \<and> retry_count st = retry_count state \<and> email_sent st
         \<and> accuracy st = accuracy state"
proof -
  let ?rec = "is_recovery state \<or> metadata_flag state ''is_recovery''"
  let ?w3 = "w\<lparr>now := now w + timedelta_seconds 2,
              outbox := outbox w @
                [Email (Low_accuracy_alert d) ''high'' (email_delivers env (Low_accuracy_alert d)),
                 Email (Evaluation_report (evaluation_date batch) True ?rec) ''high'' True]\<rparr>"
  let ?s1 = "state\<lparr>email_sent := True, email_recipients := [ALERT_EMAIL env]\<rparr>"
  let ?s2 = "fst (update_batch_state ?s1 ?w3)"
  let ?w4 = "snd (update_batch_state ?s1 ?w3)"
  let ?s3 = "?s2\<lparr>metadata :=
               AList.update ''email_duration_seconds'' (MDuration (now ?w3 - now w))
                (AList.update ''report_duration_seconds'' (MDuration rd)
                  (AList.update ''save_duration_seconds'' (MDuration sd)
                    (AList.update ''evaluation_duration_seconds'' (MDuration ed)
                      (AList.update ''pipeline_duration_seconds'' (MDuration (now ?w4 - ps))
                         (metadata ?s2)))))\<rparr>"
  let ?s4 = "fst (update_batch_state ?s3 ?w4)"
  have rep: "send_evaluation_report env batch path True ?rec
               (sleep 2 (send_accuracy_alert env d w)) = (Inr (), ?w3)"
    using assms(2)
    by (simp add: send_evaluation_report_def Let_def sleep_def send_accuracy_alert_def
          send_alert_def)
  have step: "send_email_step env d ps ed sd rd batch path state w
                = (Inr batch, ?s4, snd (update_batch_state ?s3 ?w4))"
    using assms(1)
    by (simp add: send_email_step_def Let_def rep split: prod.splits)
  have w4: "?w4 = ?w3\<lparr>batch_states := update_one_upsert ?s2 (batch_states w)\<rparr>"
    by (simp add: update_batch_state_def Let_def)
  have bd: "batch_date ?s2 = batch_date ?s4"
    by (simp add: update_batch_state_fields)
  have w5: "snd (update_batch_state ?s3 ?w4)
              = ?w3\<lparr>batch_states := update_one_upsert ?s4 (batch_states w)\<rparr>"
    using update_one_upsert_twice [OF bd, of "batch_states w"]
    by (simp add: w4) (simp add: update_batch_state_def Let_def)
  have fields: "batch_date ?s4 = batch_date state" "status ?s4 = status state"
    "retry_count ?s4 = retry_count state" "email_sent ?s4" "accuracy ?s4 = accuracy state"
    by (simp_all add: update_batch_state_fields)
  have e: "send_email_step env d ps ed sd rd batch path state w =
           (Inr batch, ?s4, ?w3\<lparr>batch_states := update_one_upsert ?s4 (batch_states w)\<rparr>)"
    by (simp only: step w5)
  show ?thesis
    apply (rule exI [of _ ?s4])
    apply (intro conjI)
         apply (rule e)
        apply (rule fields)+
    done
qed


lemma update_one_upsert_last:
  "batch_date a \<noteq> batch_date st \<Longrightarrow> batch_date b \<noteq> batch_date st \<Longrightarrow>
   batch_date c = batch_date st \<Longrightarrow> update_one_upsert st [a, b, c] = [a, b, st]"
  by simp

text \<open>
  The sweep over a window with one \<open>COMPLETED\<close> day, one \<open>FAILED\<close> day whose retries are
  exhausted, and one never-touched day with data (a single pair that fails, accuracy 0):
  \<open>run_daily_evaluation\<close> is called for the third day only, which ends \<open>COMPLETED\<close>, and the
  other two records are left as they were. The sweep still returns 0 and reports "0
  recovered, 1 failed": the success notification formats the accuracy of the state object
  read before the run, which is \<open>None\<close>, and the \<open>TypeError\<close> is caught as a failed recovery.
\<close>

theorem sweep_scenario:
  "case recover_all_missed_batches (example_env [bad_pair])
          (example_world (day 10)
             [example_state (day 7) COMPLETED, (example_state (day 8) FAILED)\<lparr>retry_count := 3\<rparr>]) of
     (n, w) \<Rightarrow>
       n = 0
       \<and> started_log w = [day 9]
       \<and> map (\<lambda>st. (batch_date st, status st, retry_count st)) (batch_states w)
           = [(day 7, COMPLETED, 0), (day 8, FAILED, 3), (day 9, COMPLETED, 0)]
       \<and> outbox w = [Email (Low_accuracy_alert (day 9)) ''high'' True,
                     Email (Evaluation_report (day 10) True True) ''high'' True,
                     Email (Recovery_summary 0 1) ''normal'' True]"
proof -
  let ?env = "example_env [bad_pair]"
  let ?C7 = "example_state (day 7) COMPLETED"
  let ?F8 = "(example_state (day 8) FAILED)\<lparr>retry_count := 3\<rparr>"
  let ?N9 = "BatchState_new (day 10) (day 9)"
  let ?R9 = "?N9\<lparr>batch_date := day 9, is_recovery := True,
                  recovery_attempted := True, recovery_count := Suc 0,
                  metadata :=
                    [(''recovery_triggered_at'', MTime (day 10)),
                     (''recovery_trigger'', MStr ''RecoveryManager''),
                     (''is_recovery'', MBool True)],
                  updated_at := day 10\<rparr>"
  let ?S9 = "?R9\<lparr>status := RUNNING, started_at := Some (day 10),
                  previous_status := Some PENDING, updated_at := day 10\<rparr>"
  let ?bb = "\<lparr>be_batch_id = ''BATCH-00000000'', evaluation_date = day 10,
               total_evaluations = Suc 0, be_passed = 0, be_failed = Suc 0,
               errors = 0, pass_percentage = 0, fail_percentage = 100,
               error_percentage = 0, be_accuracy = 0,
               average_confidence = None, evaluation_ids = [''eval-bad''],
               be_created_at = day 10, processing_time_seconds = Some 0\<rparr>"
  let ?W = "example_world (day 10) [?C7, ?F8]"
  let ?W1 = "example_world (day 10) [?C7, ?F8, ?N9]"
  let ?W2 = "example_world (day 10) [?C7, ?F8, ?R9]"
  let ?W3 = "(example_world (day 10) [?C7, ?F8, ?S9])\<lparr>started_log := [day 9]\<rparr>"
  define S4 where "S4 = ?S9\<lparr>total_pairs := Suc 0, updated_at := day 10,
       processed_pairs := Suc 0, successful_evaluations := Suc 0, error_evaluations := 0,
       passed := 0, failed := Suc 0, accuracy := Some 0, batch_id := Some ''BATCH-00000000'',
       updated_at := day 10,
       report_path := Some ''report.xlsx'', report_generated := True, updated_at := day 10\<rparr>"
  define W5 where "W5 = ?W3\<lparr>saved_results := [([example_judge bad_pair ''BATCH-00000000''], ?bb)],
       batch_states := [?C7, ?F8, S4]\<rparr>"
  have fm: "find_missing_evaluations ?env ?W = (Inr [day 9], ?W1)"
    by (simp add: find_missing_evaluations_def example_world_fields example_env_fields
          window_example get_or_create_batch_state_def Let_def replace_midnight_day
          find_one_def insert_one_def example_state_fields BatchState_new_fields
          BatchState_load_def needs_evaluation_def has_data_for_date_def day_neq day_neq2
          can_retry_def example_world_batch_states)
  have f9: "find_one (day 9) (batch_states (?W2\<lparr>started_log := started_log ?W2 @ [day 9]\<rparr>)) = Some ?R9"
    by (simp add: find_one_def example_world_fields example_state_fields day_neq day_neq2)
  have bt: "before_try ?env (day 9) (?W2\<lparr>started_log := started_log ?W2 @ [day 9]\<rparr>) = (Inr ?S9, ?W3)"
    using before_try_existing [OF replace_midnight_day f9, of ?env]
    by (simp add: example_world_fields example_env_fields BatchState_new_fields can_retry_def
          status_can_retry_def example_state_fields day_neq day_neq2 example_world_def)
  have esr: "execute_evaluation_pipeline ?env (day 9) ?S9 ?W3
               = send_email_step ?env (day 9) (day 10) 0 0 0 ?bb ''report.xlsx'' S4 W5"
    unfolding S4_def W5_def
    by (simp add: execute_evaluation_pipeline_def evaluate_save_report_def
          Let_def example_env_fields evaluate_batch_bad
          update_batch_state_def find_one_def save_evaluation_results_def
          BatchState_new_fields replace_midnight_day example_world_fields example_state_fields
          day_neq day_neq2)
  have S4_fields: "batch_date S4 = day 9" "status S4 = RUNNING" "retry_count S4 = 0"
      "is_recovery S4"
    by (simp_all add: S4_def BatchState_new_fields)
  have W5_fields: "now W5 = day 10" "outbox W5 = []" "started_log W5 = [day 9]"
      "batch_states W5 = [?C7, ?F8, S4]"
    by (simp_all add: W5_def example_world_fields)
  obtain st where
    ses: "send_email_step ?env (day 9) (day 10) 0 0 0 ?bb ''report.xlsx'' S4 W5 =
           (Inr ?bb, st,
            W5\<lparr>now := now W5 + timedelta_seconds 2,
              outbox := outbox W5 @
                [Email (Low_accuracy_alert (day 9)) ''high'' (email_delivers ?env (Low_accuracy_alert (day 9))),
                 Email (Evaluation_report (evaluation_date ?bb) True
                          (is_recovery S4 \<or> metadata_flag S4 ''is_recovery'')) ''high'' True],
              batch_states := update_one_upsert st (batch_states W5)\<rparr>)"
    and st_fields: "batch_date st = batch_date S4" "status st = status S4"
         "retry_count st = retry_count S4"
    using send_email_step_below [of ?bb ?env S4 "day 9" "day 10" 0 0 0 "''report.xlsx''" W5]
    by (auto simp: example_env_fields)
  have st9: "batch_date st = day 9" "status st = RUNNING" "retry_count st = 0"
    by (simp_all add: st_fields S4_fields)
  let ?W6 = "W5\<lparr>now := day 10 + timedelta_seconds 2,
              outbox := [Email (Low_accuracy_alert (day 9)) ''high'' True,
                         Email (Evaluation_report (day 10) True True) ''high'' True],
              batch_states := [?C7, ?F8, st]\<rparr>"
  have up1: "update_one_upsert st [?C7, ?F8, S4] = [?C7, ?F8, st]"
    by (rule update_one_upsert_last)
       (simp_all add: st9 S4_fields example_state_fields day_neq day_neq2)
  have ses': "send_email_step ?env (day 9) (day 10) 0 0 0 ?bb ''report.xlsx'' S4 W5
               = (Inr ?bb, st, ?W6)"
    by (simp add: ses W5_fields S4_fields example_env_fields st9 example_state_fields
          day_neq day_neq2)
  let ?F = "fst (update_batch_state (st\<lparr>status := COMPLETED, completed_at := Some (now ?W6)\<rparr>) ?W6)"
  have F_fields: "batch_date ?F = day 9" "status ?F = COMPLETED" "retry_count ?F = 0"
    by (simp_all add: update_batch_state_fields st9)
  have up2: "update_one_upsert ?F [?C7, ?F8, st] = [?C7, ?F8, ?F]"
    by (rule update_one_upsert_last)
       (simp_all add: update_batch_state_fields st9 example_state_fields day_neq day_neq2)
  let ?W7 = "?W6\<lparr>batch_states := [?C7, ?F8, ?F]\<rparr>"
  have tb: "try_block ?env (day 9) ?S9 ?W3 = (Inr True, ?W7)"
    apply (simp only: try_block_def esr ses' prod.case sum.case)
    apply (subst update_batch_state_result)
    apply (simp only: prod.case)
    apply (simp add: W5_fields update_batch_state_fields st9 example_state_fields day_neq day_neq2)
    done
  have run: "run_daily_evaluation ?env (day 9) ?W2 = (Inr True, ?W7)"
    using bt tb
    by (simp add: run_daily_evaluation_def Let_def replace_midnight_day)
  let ?W8 = "?W7\<lparr>total_recoveries := total_recoveries ?W7 + 1\<rparr>"
  have rs: "recover_single_batch ?env (day 9) ?W1 = (False, ?W8)"
    by (simp add: recover_single_batch_def example_world_fields example_env_fields
          get_or_create_batch_state_def Let_def replace_midnight_day
          find_one_def insert_one_def example_state_fields BatchState_new_fields
          BatchState_load_def day_neq day_neq2 update_batch_state_def
          can_retry_def status_can_retry_def example_world_batch_states run)
  have sm: "\<And>w r f. day 9 \<in> set (map batch_date (batch_states w)) \<Longrightarrow>
              send_recovery_summary ?env [day 9] r f w
                = (Inr (), send_alert ?env (Recovery_summary r f) ''normal'' w)"
    using read_states_present [of _ "[day 9]"]
    by (simp add: send_recovery_summary_def replace_midnight_day)
  show ?thesis
    by (simp add: recover_all_missed_batches_def fm rs sm send_alert_def W5_fields
          example_env_fields update_batch_state_fields st9 example_state_fields)
qed

section \<open>The orchestrator, for every input\<close>

text \<open>At or above the threshold, step 5 sends nothing and raises, for every batch, state
  and world.\<close>

lemma send_email_step_not_below:
  "\<not> be_accuracy batch < ACCURACY_THRESHOLD env \<Longrightarrow>
   send_email_step env d ps ed sd rd batch path state w = (Inl UnboundLocalError, state, w)"
  by (simp add: send_email_step_def Let_def)

text \<open>Whenever the run reaches the \<open>try\<close> block, the persisted \<open>RUNNING\<close> state carries the
  retry count it was read with.\<close>

lemma before_try_keeps_retry_count:
  assumes "before_try env d w = (Inr st, w1)"
      and "get_or_create_batch_state d w = (Inr st0, w0)"
  shows "retry_count st = retry_count st0 \<and> status st = RUNNING"
  using assms
  by (auto simp: before_try_def Let_def update_batch_state_def
      split: prod.splits sum.splits if_splits option.splits)

text \<open>Whenever the \<open>try\<close> block returns \<open>True\<close>, the state persisted last is
  \<open>COMPLETED\<close>, also when the pipeline had set \<open>SKIPPED\<close>.\<close>

lemma try_block_success_completed:
  assumes "try_block env d st w = (Inr True, w1)"
  shows "\<exists>st1. find_one (batch_date st) (batch_states w1) = Some st1 \<and> status st1 = COMPLETED"
proof (cases "execute_evaluation_pipeline env d st w")
  case (fields r st2 w2)
  show ?thesis
  proof (cases r)
    case (Inl e)
    with fields assms show ?thesis
      by (simp add: try_block_def handle_failure_def Let_def split: prod.splits)
  next
    case (Inr b)
    have bd: "batch_date st2 = batch_date st"
      using fields by (rule execute_evaluation_pipeline_batch_date)
    let ?F = "fst (update_batch_state (st2\<lparr>status := COMPLETED, completed_at := Some (now w2)\<rparr>) w2)"
    have w1: "w1 = w2\<lparr>batch_states := update_one_upsert ?F (batch_states w2)\<rparr>"
      using assms fields Inr
      by (simp add: try_block_def update_batch_state_def Let_def)
    have F: "batch_date ?F = batch_date st" "status ?F = COMPLETED"
      using bd by (simp_all add: update_batch_state_fields)
    show ?thesis
      using F by (auto simp: w1 find_one_update_one_upsert)
  qed
qed

section \<open>Concurrent callers\<close>












lemma get_or_create_as_caller_steps:
  "run_schedule [0, 0, 0] ([\<lparr>asked_date = d, clock = now w, position = At_find\<rparr>], batch_states w)
     = ([\<lparr>asked_date = d, clock = now w,
          position = (case fst (get_or_create_batch_state d w) of
                        Inr st \<Rightarrow> Returned st | Inl e \<Rightarrow> Raised e)\<rparr>],
        batch_states (snd (get_or_create_batch_state d w)))"
  by (simp add: caller_step_def get_or_create_batch_state_def Let_def insert_one_def
      split: option.splits)

end
